theory Spec2Isabelle
  imports Complex_Main
begin

section \<open>Signal detection service: edge-triggered alerts\<close>

text \<open>
  A shallow embedding of \<^verbatim>\<open>backend/services/signal_detection_service.py\<close>.

  Conventions of the embedding.
  \<^item> Python floats and ints are idealised as \<open>real\<close> and \<open>int\<close>: comparisons are exact,
    there is no NaN, no infinity and no rounding; the literal \<^verbatim>\<open>1e-9\<close> is \<open>1 / 10 ^ 9\<close>.
  \<^item> Values that arrive from JSON columns or from the market feed are dynamically typed
    in the source; they are values of \<open>pyval\<close>, and every operation that raises on an
    unsuitable value returns \<open>Inl\<close> of the exception.
  \<^item> Mutation of \<^verbatim>\<open>self\<close> is explicit state passing on the record \<open>service\<close>.
  \<^item> The outside world (clock, database, indicator store, the parser behind
    \<^verbatim>\<open>float(str)\<close>, the iteration order of a Python set) is the record \<open>env\<close>.
  \<^item> Logging has no effect on the state or on any result and is left out;
    \<^verbatim>\<open>_log_trigger\<close> swallows every exception of its database insert, so it too has no
    effect on the state or the result.
\<close>

subsection \<open>Python values\<close>

datatype pyval =
    PNone
  | PBool bool
  | PInt int
  | PFloat real
  | PStr string
  | PList "pyval list"
  | PDict "(string \<times> pyval) list"

datatype py_error = TypeError | ValueError | AttributeError | DatabaseError

text \<open>Truth value of an object, as \<^verbatim>\<open>if x\<close>, \<^verbatim>\<open>not x\<close> and \<^verbatim>\<open>all([...])\<close> take it.\<close>

fun truthy :: "pyval \<Rightarrow> bool" where
  "truthy PNone = False"
| "truthy (PBool b) = b"
| "truthy (PInt i) = (i \<noteq> 0)"
| "truthy (PFloat r) = (r \<noteq> 0)"
| "truthy (PStr s) = (s \<noteq> [])"
| "truthy (PList xs) = (xs \<noteq> [])"
| "truthy (PDict kvs) = (kvs \<noteq> [])"

text \<open>\<^verbatim>\<open>d.get(k, default)\<close>: only a dict has the method; anything else raises AttributeError.\<close>

fun py_get :: "pyval \<Rightarrow> string \<Rightarrow> pyval \<Rightarrow> py_error + pyval" where
  "py_get (PDict kvs) k dflt = Inr (case map_of kvs k of None \<Rightarrow> dflt | Some v \<Rightarrow> v)"
| "py_get _ k dflt = Inl AttributeError"

text \<open>
  \<^verbatim>\<open>float(x)\<close>. The parser of strings is Python's own and is a parameter: it returns
  \<open>None\<close> where \<^verbatim>\<open>float\<close> raises ValueError.
\<close>

fun py_float :: "(string \<Rightarrow> real option) \<Rightarrow> pyval \<Rightarrow> py_error + real" where
  "py_float parse (PBool b) = Inr (if b then 1 else 0)"
| "py_float parse (PInt i) = Inr (real_of_int i)"
| "py_float parse (PFloat r) = Inr r"
| "py_float parse (PStr s) = (case parse s of None \<Rightarrow> Inl ValueError | Some r \<Rightarrow> Inr r)"
| "py_float parse _ = Inl TypeError"

text \<open>The number a value stands for in a comparison or subtraction with a float.\<close>

fun num_of :: "pyval \<Rightarrow> real option" where
  "num_of (PBool b) = Some (if b then 1 else 0)"
| "num_of (PInt i) = Some (real_of_int i)"
| "num_of (PFloat r) = Some r"
| "num_of _ = None"

subsection \<open>Data model\<close>

record signal_state =
  signal_id :: int
  symbol :: string
  is_active :: bool
  last_value :: "real option"
  last_check_time :: real

record pool =
  pool_id :: int
  pool_name :: pyval
  signal_ids :: "int list"
  symbols :: "string list"
  pool_enabled :: bool

record signal_def =
  def_id :: int
  signal_name :: pyval
  description :: pyval
  trigger_condition :: pyval
  def_enabled :: bool

record trigger_result =
  tr_signal_id :: int
  tr_signal_name :: pyval
  tr_symbol :: string
  tr_trigger_value :: real
  tr_threshold :: pyval
  tr_operator :: pyval
  tr_metric :: pyval
  tr_trigger_time :: real
  tr_description :: pyval

text \<open>Rows as the two SELECT statements return them; a NULL array column is \<open>None\<close>.\<close>

record pool_row =
  pr_id :: int
  pr_pool_name :: pyval
  pr_signal_ids :: "int list option"
  pr_symbols :: "string list option"
  pr_enabled :: bool

record signal_row =
  sr_id :: int
  sr_signal_name :: pyval
  sr_description :: pyval
  sr_trigger_condition :: pyval
  sr_enabled :: bool

text \<open>
  The service object. \<open>ticks\<close> and \<open>refresh_attempts\<close> are not attributes of the Python
  object: \<open>ticks\<close> counts the readings of \<^verbatim>\<open>time.time()\<close> made so far (the n-th reading
  returns \<open>clock env n\<close>), \<open>refresh_attempts\<close> counts how often the refresh got past
  its TTL test and went on to the database.
\<close>

record service =
  signal_states :: "int \<times> string \<rightharpoonup> signal_state"
  signal_pools_cache :: "pool list"
  signals_cache :: "int \<rightharpoonup> signal_def"
  cache_time :: real
  cache_ttl :: real
  ticks :: nat
  refresh_attempts :: nat

record env =
  clock :: "nat \<Rightarrow> real"
  session_local :: "py_error option"
  query_pools :: "py_error + pool_row list"
  query_signals :: "py_error + signal_row list"
  get_indicator_value :: "string \<Rightarrow> string \<Rightarrow> string \<Rightarrow> py_error + real option"
  float_of_str :: "string \<Rightarrow> real option"
  set_iteration :: "int list \<Rightarrow> int list"

text \<open>\<^verbatim>\<open>__init__\<close>.\<close>

definition init_service :: service where
  "init_service =
     \<lparr>signal_states = Map.empty, signal_pools_cache = [], signals_cache = Map.empty,
      cache_time = 0, cache_ttl = 60, ticks = 0, refresh_attempts = 0\<rparr>"

subsection \<open>Operator evaluator\<close>

text \<open>
  A comparison of the float \<open>v\<close> with the threshold: a threshold that is no number
  (a string, a list, a dict, None) raises TypeError.
\<close>

definition compare_with :: "(real \<Rightarrow> bool) \<Rightarrow> pyval \<Rightarrow> py_error + bool" where
  "compare_with f th = (case num_of th of None \<Rightarrow> Inl TypeError | Some t \<Rightarrow> Inr (f t))"

definition evaluate_condition :: "real \<Rightarrow> pyval \<Rightarrow> pyval \<Rightarrow> py_error + bool" where
  "evaluate_condition v oper th =
     (if oper = PStr ''>'' then compare_with (\<lambda>t. v > t) th
      else if oper = PStr ''>='' then compare_with (\<lambda>t. v \<ge> t) th
      else if oper = PStr ''<'' then compare_with (\<lambda>t. v < t) th
      else if oper = PStr ''<='' then compare_with (\<lambda>t. v \<le> t) th
      else if oper = PStr ''=='' then compare_with (\<lambda>t. \<bar>v - t\<bar> < 1 / 10 ^ 9) th
      else if oper = PStr ''!='' then compare_with (\<lambda>t. \<bar>v - t\<bar> \<ge> 1 / 10 ^ 9) th
      else if oper = PStr ''abs_greater_than'' \<or> oper = PStr ''abs_gt''
        then compare_with (\<lambda>t. \<bar>v\<bar> > t) th
      else if oper = PStr ''abs_less_than'' \<or> oper = PStr ''abs_lt''
        then compare_with (\<lambda>t. \<bar>v\<bar> < t) th
      else Inr False)"

subsection \<open>Period bucketer\<close>

definition bucket :: "real \<Rightarrow> string" where
  "bucket w =
     (if w \<le> 60 then ''1m''
      else if w \<le> 180 then ''3m''
      else if w \<le> 300 then ''5m''
      else if w \<le> 900 then ''15m''
      else if w \<le> 1800 then ''30m''
      else if w \<le> 3600 then ''1h''
      else if w \<le> 7200 then ''2h''
      else ''4h'')"

text \<open>
  \<^verbatim>\<open>_time_window_to_period\<close>: a string passes through, a number is bucketed, and
  \<^verbatim>\<open>time_window <= 60\<close> raises TypeError on anything else.
\<close>

fun time_window_to_period :: "pyval \<Rightarrow> py_error + string" where
  "time_window_to_period (PStr s) = Inr s"
| "time_window_to_period tw =
     (case num_of tw of None \<Rightarrow> Inl TypeError | Some w \<Rightarrow> Inr (bucket w))"

subsection \<open>Metric resolver\<close>

type_synonym market_data = "(string \<times> pyval) list"

text \<open>\<^verbatim>\<open>float(x) if x else None\<close>.\<close>

definition float_if_truthy :: "env \<Rightarrow> pyval \<Rightarrow> py_error + real option" where
  "float_if_truthy e x =
     (if truthy x
      then (case py_float (float_of_str e) x of Inl err \<Rightarrow> Inl err | Inr r \<Rightarrow> Inr (Some r))
      else Inr None)"

definition get_asset_field :: "env \<Rightarrow> market_data \<Rightarrow> string \<Rightarrow> py_error + real option" where
  "get_asset_field e md k =
     (case py_get (PDict md) ''asset_ctx'' (PDict []) of
        Inl err \<Rightarrow> Inl err
      | Inr asset_ctx \<Rightarrow>
          (case py_get asset_ctx k PNone of
             Inl err \<Rightarrow> Inl err
           | Inr x \<Rightarrow> float_if_truthy e x))"

definition get_oi :: "env \<Rightarrow> string \<Rightarrow> market_data \<Rightarrow> py_error + real option" where
  "get_oi e symb md = get_asset_field e md ''openInterest''"

definition get_funding_rate :: "env \<Rightarrow> string \<Rightarrow> market_data \<Rightarrow> py_error + real option" where
  "get_funding_rate e symb md = get_asset_field e md ''funding''"

text \<open>
  \<^verbatim>\<open>metric not in indicator_map\<close> followed by \<^verbatim>\<open>indicator_map[metric]\<close>: hashing a list
  or a dict raises TypeError.
\<close>

fun indicator_map :: "pyval \<Rightarrow> py_error + string option" where
  "indicator_map (PStr m) =
     Inr (map_of
       [(''oi_delta_percent'', ''OI_DELTA''),
        (''cvd'', ''CVD''),
        (''depth_ratio'', ''DEPTH''),
        (''order_imbalance'', ''IMBALANCE''),
        (''taker_buy_ratio'', ''TAKER'')] m)"
| "indicator_map (PList xs) = Inl TypeError"
| "indicator_map (PDict kvs) = Inl TypeError"
| "indicator_map _ = Inr None"

text \<open>The body of the \<^verbatim>\<open>try\<close> of \<^verbatim>\<open>_get_metric_value\<close>.\<close>

definition get_metric_value_try ::
  "env \<Rightarrow> pyval \<Rightarrow> string \<Rightarrow> market_data \<Rightarrow> pyval \<Rightarrow> py_error + real option" where
  "get_metric_value_try e metric symb md time_window =
     (if metric = PStr ''oi'' then get_oi e symb md
      else if metric = PStr ''funding_rate'' then get_funding_rate e symb md
      else
        (case time_window_to_period time_window of
           Inl err \<Rightarrow> Inl err
         | Inr period \<Rightarrow>
             (case indicator_map metric of
                Inl err \<Rightarrow> Inl err
              | Inr None \<Rightarrow> Inr None
              | Inr (Some indicator_type) \<Rightarrow>
                  (case session_local e of
                     Some err \<Rightarrow> Inl err
                   | None \<Rightarrow> get_indicator_value e symb indicator_type period))))"

text \<open>\<^verbatim>\<open>_get_metric_value\<close>: \<^verbatim>\<open>except Exception: return None\<close>.\<close>

definition get_metric_value ::
  "env \<Rightarrow> pyval \<Rightarrow> string \<Rightarrow> market_data \<Rightarrow> pyval \<Rightarrow> real option" where
  "get_metric_value e metric symb md time_window =
     (case get_metric_value_try e metric symb md time_window of
        Inl err \<Rightarrow> None
      | Inr r \<Rightarrow> r)"

subsection \<open>Configuration cache\<close>

text \<open>The dict built for a pool row: \<^verbatim>\<open>row[2] or []\<close> and \<^verbatim>\<open>row[3] or []\<close>.\<close>

definition pool_of_row :: "pool_row \<Rightarrow> pool" where
  "pool_of_row r =
     \<lparr>pool_id = pr_id r, pool_name = pr_pool_name r,
      signal_ids = (case pr_signal_ids r of None \<Rightarrow> [] | Some xs \<Rightarrow> xs),
      symbols = (case pr_symbols r of None \<Rightarrow> [] | Some xs \<Rightarrow> xs),
      pool_enabled = pr_enabled r\<rparr>"

definition def_of_row :: "signal_row \<Rightarrow> signal_def" where
  "def_of_row r =
     \<lparr>def_id = sr_id r, signal_name = sr_signal_name r, description = sr_description r,
      trigger_condition = sr_trigger_condition r, def_enabled = sr_enabled r\<rparr>"

text \<open>The dict comprehension keyed by \<^verbatim>\<open>row[0]\<close>: a later row replaces an earlier one.\<close>

definition signals_of_rows :: "signal_row list \<Rightarrow> (int \<rightharpoonup> signal_def)" where
  "signals_of_rows rows = fold (\<lambda>r m. m(sr_id r \<mapsto> def_of_row r)) rows Map.empty"

text \<open>
  \<^verbatim>\<open>_refresh_cache_if_needed\<close>. The pools are assigned as soon as the first query has
  returned; the definitions and the timestamp only after the second one. Every
  exception ends in the \<^verbatim>\<open>except\<close> clause, which logs and returns.
\<close>

definition refresh_cache_if_needed :: "env \<Rightarrow> service \<Rightarrow> service" where
  "refresh_cache_if_needed e s =
     (let now = clock e (ticks s);
          s0 = s\<lparr>ticks := Suc (ticks s)\<rparr>
      in if now - cache_time s < cache_ttl s then s0
         else
           let s1 = s0\<lparr>refresh_attempts := Suc (refresh_attempts s0)\<rparr>
           in (case session_local e of
                 Some err \<Rightarrow> s1
               | None \<Rightarrow>
                   (case query_pools e of
                      Inl err \<Rightarrow> s1
                    | Inr prows \<Rightarrow>
                        let s2 = s1\<lparr>signal_pools_cache := map pool_of_row prows\<rparr>
                        in (case query_signals e of
                              Inl err \<Rightarrow> s2
                            | Inr srows \<Rightarrow>
                                s2\<lparr>signals_cache := signals_of_rows srows,
                                   cache_time := now\<rparr>))))"

subsection \<open>Signal evaluator\<close>

definition fresh_state :: "int \<Rightarrow> string \<Rightarrow> signal_state" where
  "fresh_state sid symb =
     \<lparr>signal_id = sid, symbol = symb, is_active = False, last_value = None,
      last_check_time = 0\<rparr>"

text \<open>
  The tail of \<^verbatim>\<open>_check_signal_trigger\<close>, from \<^verbatim>\<open>state_key = (signal_id, symbol)\<close> on:
  get or create the state, decide, update, and build the record on a rising edge.
  \<^verbatim>\<open>time.time()\<close> is read once for \<^verbatim>\<open>last_check_time\<close> and once more for
  \<^verbatim>\<open>trigger_time\<close>.
\<close>

definition edge_update ::
  "env \<Rightarrow> service \<Rightarrow> int \<Rightarrow> signal_def \<Rightarrow> string \<Rightarrow> pyval \<Rightarrow> pyval \<Rightarrow> pyval \<Rightarrow> real \<Rightarrow> bool
     \<Rightarrow> trigger_result option \<times> service" where
  "edge_update e s sid sd symb metric oper threshold current_value condition_met =
     (let state_key = (sid, symb);
          state = (case signal_states s state_key of
                     None \<Rightarrow> fresh_state sid symb
                   | Some st \<Rightarrow> st);
          should_trigger = (condition_met \<and> \<not> is_active state);
          state' = state\<lparr>is_active := condition_met, last_value := Some current_value,
                         last_check_time := clock e (ticks s)\<rparr>;
          s1 = s\<lparr>signal_states := (signal_states s)(state_key \<mapsto> state'),
                 ticks := Suc (ticks s)\<rparr>
      in if should_trigger
         then (Some \<lparr>tr_signal_id = sid, tr_signal_name = signal_name sd, tr_symbol = symb,
                      tr_trigger_value = current_value, tr_threshold = threshold,
                      tr_operator = oper, tr_metric = metric,
                      tr_trigger_time = clock e (ticks s1),
                      tr_description = description sd\<rparr>,
               s1\<lparr>ticks := Suc (ticks s1)\<rparr>)
         else (None, s1))"

text \<open>
  \<^verbatim>\<open>_check_signal_trigger\<close>. \<open>Inl\<close> is an exception that leaves the method: a
  \<^verbatim>\<open>trigger_condition\<close> that is no dict, or a threshold that cannot be compared.
  Neither happens after the state has been touched.
\<close>

definition check_signal_trigger ::
  "env \<Rightarrow> service \<Rightarrow> int \<Rightarrow> signal_def \<Rightarrow> string \<Rightarrow> market_data
     \<Rightarrow> py_error + trigger_result option \<times> service" where
  "check_signal_trigger e s sid sd symb md =
     (let condition = trigger_condition sd in
      case py_get condition ''metric'' PNone of
        Inl err \<Rightarrow> Inl err
      | Inr metric \<Rightarrow>
      (case py_get condition ''operator'' PNone of
        Inl err \<Rightarrow> Inl err
      | Inr oper \<Rightarrow>
      (case py_get condition ''threshold'' PNone of
        Inl err \<Rightarrow> Inl err
      | Inr threshold \<Rightarrow>
      (case py_get condition ''time_window'' (PInt 60) of
        Inl err \<Rightarrow> Inl err
      | Inr time_window \<Rightarrow>
          if \<not> (truthy metric \<and> truthy oper \<and> threshold \<noteq> PNone) then Inr (None, s)
          else
            (case get_metric_value e metric symb md time_window of
               None \<Rightarrow> Inr (None, s)
             | Some current_value \<Rightarrow>
                 (case evaluate_condition current_value oper threshold of
                    Inl err \<Rightarrow> Inl err
                  | Inr condition_met \<Rightarrow>
                      Inr (edge_update e s sid sd symb metric oper threshold
                             current_value condition_met)))))))"

text \<open>
  The \<^verbatim>\<open>for signal_id in signal_ids\<close> loop of \<^verbatim>\<open>detect_signals\<close>, with the list built
  so far. An exception of \<^verbatim>\<open>_check_signal_trigger\<close> is caught by the one \<^verbatim>\<open>try\<close> around
  the whole body: the loop ends there, and what had been appended is returned.
\<close>

fun check_signals ::
  "env \<Rightarrow> service \<Rightarrow> string \<Rightarrow> market_data \<Rightarrow> int list \<Rightarrow> trigger_result list
     \<Rightarrow> trigger_result list \<times> service" where
  "check_signals e s symb md [] triggered = (triggered, s)"
| "check_signals e s symb md (sid # sids) triggered =
     (case signals_cache s sid of
        None \<Rightarrow> check_signals e s symb md sids triggered
      | Some sd \<Rightarrow>
          if \<not> def_enabled sd then check_signals e s symb md sids triggered
          else
            (case check_signal_trigger e s sid sd symb md of
               Inl err \<Rightarrow> (triggered, s)
             | Inr (None, s') \<Rightarrow> check_signals e s' symb md sids triggered
             | Inr (Some r, s') \<Rightarrow> check_signals e s' symb md sids (triggered @ [r])))"

text \<open>
  \<^verbatim>\<open>detect_signals\<close>. The ids of the relevant pools are collected in a Python set; the
  order in which the \<^verbatim>\<open>for\<close> loop then visits them is the interpreter's, given by
  \<open>set_iteration\<close> from the ids in the order they were added.
\<close>

definition detect_signals ::
  "env \<Rightarrow> service \<Rightarrow> string \<Rightarrow> market_data \<Rightarrow> trigger_result list \<times> service" where
  "detect_signals e s symb md =
     (let s1 = refresh_cache_if_needed e s;
          relevant_pools =
            filter (\<lambda>p. pool_enabled p \<and> symb \<in> set (symbols p)) (signal_pools_cache s1)
      in if relevant_pools = [] then ([], s1)
         else check_signals e s1 symb md
                (set_iteration e (concat (map signal_ids relevant_pools))) [])"

subsection \<open>Observers used to state the properties\<close>

text \<open>
  The activation flag stored for a pair. A pair without an entry counts as inactive:
  its entry is created with \<^verbatim>\<open>is_active = False\<close> on the first evaluation.
\<close>

definition stored_active :: "service \<Rightarrow> int \<Rightarrow> string \<Rightarrow> bool" where
  "stored_active s sid symb =
     (case signal_states s (sid, symb) of None \<Rightarrow> False | Some st \<Rightarrow> is_active st)"

text \<open>A field of the condition of a definition, when the condition is a dict.\<close>

definition cond_field :: "signal_def \<Rightarrow> string \<Rightarrow> pyval \<Rightarrow> pyval" where
  "cond_field sd k dflt =
     (case py_get (trigger_condition sd) k dflt of Inl err \<Rightarrow> dflt | Inr v \<Rightarrow> v)"

fun is_dict :: "pyval \<Rightarrow> bool" where
  "is_dict (PDict kvs) = True"
| "is_dict _ = False"

text \<open>The condition passes the required-field test of \<^verbatim>\<open>_check_signal_trigger\<close>.\<close>

definition well_formed :: "signal_def \<Rightarrow> bool" where
  "well_formed sd =
     (is_dict (trigger_condition sd)
      \<and> truthy (cond_field sd ''metric'' PNone)
      \<and> truthy (cond_field sd ''operator'' PNone)
      \<and> cond_field sd ''threshold'' PNone \<noteq> PNone)"

text \<open>The metric value the evaluation of a definition resolves.\<close>

definition resolved_value :: "env \<Rightarrow> signal_def \<Rightarrow> string \<Rightarrow> market_data \<Rightarrow> real option" where
  "resolved_value e sd symb md =
     get_metric_value e (cond_field sd ''metric'' PNone) symb md
       (cond_field sd ''time_window'' (PInt 60))"

text \<open>
  The outcome of the condition in one evaluation: defined when the condition is
  well-formed, the metric resolves and the comparison does not raise.
\<close>

definition condition_outcome :: "env \<Rightarrow> signal_def \<Rightarrow> string \<Rightarrow> market_data \<Rightarrow> bool option" where
  "condition_outcome e sd symb md =
     (if well_formed sd
      then (case resolved_value e sd symb md of
              None \<Rightarrow> None
            | Some v \<Rightarrow>
                (case evaluate_condition v (cond_field sd ''operator'' PNone)
                        (cond_field sd ''threshold'' PNone) of
                   Inl err \<Rightarrow> None
                 | Inr b \<Rightarrow> Some b))
      else None)"

text \<open>
  A sequence of evaluations of one pair (signal id, symbol): each element gives the
  world, the definition and the market update of one call of
  \<^verbatim>\<open>_check_signal_trigger\<close>. The trace records, per evaluation, the activation flag
  stored beforehand and what the call returned. An exception leaves the state as it
  was.
\<close>

fun run_evaluations ::
  "service \<Rightarrow> int \<Rightarrow> string \<Rightarrow> (env \<times> signal_def \<times> market_data) list
     \<Rightarrow> (bool \<times> (py_error + trigger_result option)) list" where
  "run_evaluations s sid symb [] = []"
| "run_evaluations s sid symb ((e, sd, md) # xs) =
     (case check_signal_trigger e s sid sd symb md of
        Inl err \<Rightarrow> (stored_active s sid symb, Inl err) # run_evaluations s sid symb xs
      | Inr (r, s') \<Rightarrow> (stored_active s sid symb, Inr r) # run_evaluations s' sid symb xs)"

definition outcome_of :: "string \<Rightarrow> env \<times> signal_def \<times> market_data \<Rightarrow> bool option" where
  "outcome_of symb x = (case x of (e, sd, md) \<Rightarrow> condition_outcome e sd symb md)"

definition met :: "string \<Rightarrow> (env \<times> signal_def \<times> market_data) list \<Rightarrow> nat \<Rightarrow> bool" where
  "met symb xs i = (outcome_of symb (xs ! i) = Some True)"

subsection \<open>The end-to-end scenario of the specification\<close>

text \<open>
  One enabled pool P with symbols {"BTC"} and signals {S1}; S1 enabled with metric
  "oi", operator ">" and threshold 1000000. The clock starts at an epoch time and the
  interpreter visits a set of small ids in ascending order.
\<close>

definition pool_row_P :: pool_row where
  "pool_row_P =
     \<lparr>pr_id = 1, pr_pool_name = PStr ''P'', pr_signal_ids = Some [1],
      pr_symbols = Some [''BTC''], pr_enabled = True\<rparr>"

definition signal_row_S1 :: signal_row where
  "signal_row_S1 =
     \<lparr>sr_id = 1, sr_signal_name = PStr ''S1'', sr_description = PNone,
      sr_trigger_condition =
        PDict [(''metric'', PStr ''oi''), (''operator'', PStr ''>''),
               (''threshold'', PInt 1000000)],
      sr_enabled = True\<rparr>"

definition scenario_env :: env where
  "scenario_env =
     \<lparr>clock = (\<lambda>n. 1700000000 + real n),
      session_local = None,
      query_pools = Inr [pool_row_P],
      query_signals = Inr [signal_row_S1],
      get_indicator_value = (\<lambda>symb ind period. Inr None),
      float_of_str = (\<lambda>str. None),
      set_iteration = (\<lambda>ids. sort (remdups ids))\<rparr>"

definition update_oi :: "int \<Rightarrow> market_data" where
  "update_oi v = [(''asset_ctx'', PDict [(''openInterest'', PInt v)])]"

definition signal_S1 :: signal_def where
  "signal_S1 = def_of_row signal_row_S1"

definition scenario_evaluations :: "(env \<times> signal_def \<times> market_data) list" where
  "scenario_evaluations =
     map (\<lambda>v. (scenario_env, signal_S1, update_oi v))
       [900000, 1100000, 1100000, 900000, 1200000]"

text \<open>Further definitions used as concrete inputs.\<close>

definition signal_no_threshold :: signal_def where
  "signal_no_threshold =
     \<lparr>def_id = 2, signal_name = PStr ''A'', description = PNone,
      trigger_condition = PDict [(''metric'', PStr ''oi''), (''operator'', PStr ''>'')],
      def_enabled = True\<rparr>"

definition signal_zero :: signal_def where
  "signal_zero =
     \<lparr>def_id = 3, signal_name = PStr ''Z'', description = PNone,
      trigger_condition =
        PDict [(''metric'', PStr ''funding_rate''), (''operator'', PStr ''>''),
               (''threshold'', PInt 0)],
      def_enabled = True\<rparr>"

definition update_funding :: "real \<Rightarrow> market_data" where
  "update_funding v = [(''asset_ctx'', PDict [(''funding'', PFloat v)])]"

text \<open>The database of the scenario, with a definitions query that fails.\<close>

definition env_signals_query_fails :: env where
  "env_signals_query_fails = scenario_env\<lparr>query_signals := Inl DatabaseError\<rparr>"

text \<open>
  A candidate that the loop of \<^verbatim>\<open>detect_signals\<close> passes over: no definition in the
  cache, a disabled definition, or a definition whose condition is a dict that fails the
  required-field test or whose metric does not resolve.
\<close>

definition skipped :: "env \<Rightarrow> service \<Rightarrow> string \<Rightarrow> market_data \<Rightarrow> int \<Rightarrow> bool" where
  "skipped e s symb md sid =
     (case signals_cache s sid of
        None \<Rightarrow> True
      | Some sd \<Rightarrow>
          \<not> def_enabled sd
          \<or> (is_dict (trigger_condition sd)
              \<and> (\<not> well_formed sd \<or> resolved_value e sd symb md = None)))"

text \<open>
  Two signals A (id 1) and B (id 2) in one pool for "BTC". B has the condition of S1;
  A has either a threshold that is a string or no threshold at all.
\<close>

definition signal_row_string_threshold :: signal_row where
  "signal_row_string_threshold =
     \<lparr>sr_id = 1, sr_signal_name = PStr ''A'', sr_description = PNone,
      sr_trigger_condition =
        PDict [(''metric'', PStr ''oi''), (''operator'', PStr ''>''),
               (''threshold'', PStr ''1000000'')],
      sr_enabled = True\<rparr>"

definition signal_row_no_threshold :: signal_row where
  "signal_row_no_threshold =
     \<lparr>sr_id = 1, sr_signal_name = PStr ''A'', sr_description = PNone,
      sr_trigger_condition = PDict [(''metric'', PStr ''oi''), (''operator'', PStr ''>'')],
      sr_enabled = True\<rparr>"

definition signal_row_B :: signal_row where
  "signal_row_B = signal_row_S1\<lparr>sr_id := 2, sr_signal_name := PStr ''B''\<rparr>"

definition pool_row_AB :: pool_row where
  "pool_row_AB = pool_row_P\<lparr>pr_signal_ids := Some [1, 2]\<rparr>"

definition env_string_threshold :: env where
  "env_string_threshold =
     scenario_env\<lparr>query_pools := Inr [pool_row_AB],
                   query_signals := Inr [signal_row_string_threshold, signal_row_B]\<rparr>"

definition env_no_threshold :: env where
  "env_no_threshold =
     scenario_env\<lparr>query_pools := Inr [pool_row_AB],
                   query_signals := Inr [signal_row_no_threshold, signal_row_B]\<rparr>"

text \<open>A sequence of calls of \<^verbatim>\<open>detect_signals\<close> for one symbol, each on the state the
  previous one left; per call, what it returned and the state afterwards.\<close>

fun detect_sequence ::
  "env \<Rightarrow> service \<Rightarrow> string \<Rightarrow> market_data list \<Rightarrow> (trigger_result list \<times> service) list" where
  "detect_sequence e s symb [] = []"
| "detect_sequence e s symb (md # mds) =
     (case detect_signals e s symb md of
        (r, s') \<Rightarrow> (r, s') # detect_sequence e s' symb mds)"

definition loaded :: "service \<Rightarrow> bool" where
  "loaded s =
     (signal_pools_cache s = [pool_of_row pool_row_P]
      \<and> signals_cache s = signals_of_rows [signal_row_S1])"

section \<open>Verified properties\<close>

subsection \<open>Helper lemmas\<close>

lemma check_defined:
  assumes "condition_outcome e sd symb md = Some b"
  shows "\<exists>v. resolved_value e sd symb md = Some v \<and>
     check_signal_trigger e s sid sd symb md =
       Inr (edge_update e s sid sd symb (cond_field sd ''metric'' PNone)
              (cond_field sd ''operator'' PNone) (cond_field sd ''threshold'' PNone) v b)"
proof -
  from assms have wf: "well_formed sd"
    by (simp add: condition_outcome_def split: if_splits)
  then obtain c where c: "trigger_condition sd = PDict c"
    by (cases "trigger_condition sd") (simp_all add: well_formed_def)
  from assms wf obtain v where v: "resolved_value e sd symb md = Some v"
    and ev: "evaluate_condition v (cond_field sd ''operator'' PNone)
               (cond_field sd ''threshold'' PNone) = Inr b"
    by (auto simp: condition_outcome_def split: option.splits sum.splits)
  from wf c v ev show ?thesis
    by (simp add: check_signal_trigger_def well_formed_def resolved_value_def cond_field_def)
qed

lemma edge_update_record:
  "(fst (edge_update e s sid sd symb m oper th v b) \<noteq> None) = (b \<and> \<not> stored_active s sid symb)"
  by (simp add: edge_update_def stored_active_def fresh_state_def Let_def split: option.splits)

lemma edge_update_active:
  "stored_active (snd (edge_update e s sid sd symb m oper th v b)) sid symb = b"
  by (simp add: edge_update_def stored_active_def Let_def)

lemma edge_update_for_pair:
  "fst (edge_update e s sid sd symb m oper th v b) = Some t \<Longrightarrow>
     tr_signal_id t = sid \<and> tr_symbol t = symb \<and> tr_trigger_value t = v"
  by (auto simp: edge_update_def Let_def split: if_splits)

subsection \<open>Operator evaluator\<close>



subsection \<open>Period bucketer\<close>

text \<open>
  C4. For every integer number of seconds \<open>w\<close> the period bucketer returns "1m" up to
  60, "3m" up to 180, "5m" up to 300, "15m" up to 900, "30m" up to 1800, "1h" up to
  3600, "2h" up to 7200 and "4h" above; a string is returned unchanged. In particular
  bucket(60) = "1m", bucket(61) = "3m", bucket(7200) = "2h", bucket(7201) = "4h".
\<close>

theorem period_bucketer:
  "time_window_to_period (PInt w) =
     Inr (if w \<le> 60 then ''1m''
          else if w \<le> 180 then ''3m''
          else if w \<le> 300 then ''5m''
          else if w \<le> 900 then ''15m''
          else if w \<le> 1800 then ''30m''
          else if w \<le> 3600 then ''1h''
          else if w \<le> 7200 then ''2h''
          else ''4h'')
   \<and> time_window_to_period (PStr p) = Inr p
   \<and> time_window_to_period (PInt 60) = Inr ''1m''
   \<and> time_window_to_period (PInt 61) = Inr ''3m''
   \<and> time_window_to_period (PInt 7200) = Inr ''2h''
   \<and> time_window_to_period (PInt 7201) = Inr ''4h''"
  by (simp add: bucket_def)

subsection \<open>Edge triggering\<close>

lemma run_length: "length (run_evaluations s sid symb xs) = length xs"
  by (induction xs arbitrary: s) (auto split: sum.splits prod.splits)

lemma run_step:
  assumes "condition_outcome e sd symb md = Some b"
  shows "\<exists>r s'. check_signal_trigger e s sid sd symb md = Inr (r, s')
     \<and> ((r \<noteq> None) = (b \<and> \<not> stored_active s sid symb))
     \<and> stored_active s' sid symb = b
     \<and> (\<forall>t. r = Some t \<longrightarrow> tr_signal_id t = sid \<and> tr_symbol t = symb)"
proof -
  from check_defined [OF assms, of s sid] obtain v where
    c: "check_signal_trigger e s sid sd symb md =
       Inr (edge_update e s sid sd symb (cond_field sd ''metric'' PNone)
              (cond_field sd ''operator'' PNone) (cond_field sd ''threshold'' PNone) v b)"
    by blast
  let ?u = "edge_update e s sid sd symb (cond_field sd ''metric'' PNone)
              (cond_field sd ''operator'' PNone) (cond_field sd ''threshold'' PNone) v b"
  have "check_signal_trigger e s sid sd symb md = Inr (fst ?u, snd ?u)"
    using c by simp
  moreover have "(fst ?u \<noteq> None) = (b \<and> \<not> stored_active s sid symb)"
    by (rule edge_update_record)
  moreover have "stored_active (snd ?u) sid symb = b"
    by (rule edge_update_active)
  moreover have "\<forall>t. fst ?u = Some t \<longrightarrow> tr_signal_id t = sid \<and> tr_symbol t = symb"
    using edge_update_for_pair by blast
  ultimately show ?thesis by blast
qed

lemma run_trace:
  assumes "\<forall>x \<in> set xs. outcome_of symb x \<noteq> None"
  shows "\<forall>i < length xs. \<exists>r.
     run_evaluations s sid symb xs ! i =
       (if i = 0 then stored_active s sid symb else met symb xs (i - 1), Inr r)
     \<and> ((r \<noteq> None) =
          (met symb xs i \<and> \<not> (if i = 0 then stored_active s sid symb else met symb xs (i - 1))))
     \<and> (\<forall>t. r = Some t \<longrightarrow> tr_signal_id t = sid \<and> tr_symbol t = symb)"
  using assms
proof (induction xs arbitrary: s)
  case Nil
  then show ?case by simp
next
  case (Cons x xs)
  obtain e sd md where x: "x = (e, sd, md)" by (cases x) auto
  from Cons.prems x obtain b where b: "condition_outcome e sd symb md = Some b"
    by (auto simp: outcome_of_def)
  from run_step [OF b, of s sid] obtain r s' where
    c: "check_signal_trigger e s sid sd symb md = Inr (r, s')"
    and r: "(r \<noteq> None) = (b \<and> \<not> stored_active s sid symb)"
    and a: "stored_active s' sid symb = b"
    and p: "\<forall>t. r = Some t \<longrightarrow> tr_signal_id t = sid \<and> tr_symbol t = symb"
    by blast
  have m0: "met symb (x # xs) 0 = b"
    using b x by (auto simp: met_def outcome_of_def)
  have IH: "\<forall>i < length xs. \<exists>r.
     run_evaluations s' sid symb xs ! i =
       (if i = 0 then stored_active s' sid symb else met symb xs (i - 1), Inr r)
     \<and> ((r \<noteq> None) =
          (met symb xs i \<and> \<not> (if i = 0 then stored_active s' sid symb else met symb xs (i - 1))))
     \<and> (\<forall>t. r = Some t \<longrightarrow> tr_signal_id t = sid \<and> tr_symbol t = symb)"
    using Cons.IH [of s'] Cons.prems by simp
  show ?case
  proof (intro allI impI)
    fix i assume i: "i < length (x # xs)"
    show "\<exists>r. run_evaluations s sid symb (x # xs) ! i =
       (if i = 0 then stored_active s sid symb else met symb (x # xs) (i - 1), Inr r)
     \<and> ((r \<noteq> None) =
          (met symb (x # xs) i \<and>
           \<not> (if i = 0 then stored_active s sid symb else met symb (x # xs) (i - 1))))
     \<and> (\<forall>t. r = Some t \<longrightarrow> tr_signal_id t = sid \<and> tr_symbol t = symb)"
    proof (cases i)
      case 0
      then show ?thesis using c r p m0 x by simp
    next
      case (Suc j)
      with i have j: "j < length xs" by simp
      from IH j obtain r' where
        r': "run_evaluations s' sid symb xs ! j =
           (if j = 0 then stored_active s' sid symb else met symb xs (j - 1), Inr r')"
        "(r' \<noteq> None) =
          (met symb xs j \<and> \<not> (if j = 0 then stored_active s' sid symb else met symb xs (j - 1)))"
        "\<forall>t. r' = Some t \<longrightarrow> tr_signal_id t = sid \<and> tr_symbol t = symb"
        by blast
      have mj: "met symb (x # xs) (Suc j) = met symb xs j"
        by (simp add: met_def)
      have prev: "met symb (x # xs) j = (if j = 0 then stored_active s' sid symb else met symb xs (j - 1))"
        using a m0 by (cases j) (simp_all add: met_def)
      show ?thesis
        using Suc r' c x mj prev by simp
    qed
  qed
qed

text \<open>
  C1. For every pair (signal id, symbol) and every sequence of evaluations of the pair
  in which the condition outcome is defined, an evaluation produces a TriggerRecord
  for the pair if and only if the condition is met in that evaluation and the
  activation flag stored beforehand was false; the flag stored before an evaluation is
  the outcome of the previous one. In particular, while the condition stays true only
  the first evaluation produces a record, and when the condition was false and becomes
  true a record is produced at that rising edge.
\<close>

theorem edge_trigger_law:
  assumes "\<forall>x \<in> set xs. outcome_of symb x \<noteq> None"
  shows "(\<forall>i < length xs. \<exists>r.
       run_evaluations s sid symb xs ! i =
         (if i = 0 then stored_active s sid symb else met symb xs (i - 1), Inr r)
       \<and> ((r \<noteq> None) = (met symb xs i \<and> \<not> fst (run_evaluations s sid symb xs ! i)))
       \<and> (\<forall>t. r = Some t \<longrightarrow> tr_signal_id t = sid \<and> tr_symbol t = symb))
     \<and> (\<forall>i. Suc i < length xs \<and> met symb xs i \<and> met symb xs (Suc i) \<longrightarrow>
            snd (run_evaluations s sid symb xs ! Suc i) = Inr None)
     \<and> (\<forall>i. Suc i < length xs \<and> \<not> met symb xs i \<and> met symb xs (Suc i) \<longrightarrow>
            (\<exists>t. snd (run_evaluations s sid symb xs ! Suc i) = Inr (Some t)))"
proof -
  note tr = run_trace [OF assms, of s sid, rule_format]
  have a: "\<exists>r. run_evaluations s sid symb xs ! i =
         (if i = 0 then stored_active s sid symb else met symb xs (i - 1), Inr r)
       \<and> ((r \<noteq> None) = (met symb xs i \<and> \<not> fst (run_evaluations s sid symb xs ! i)))
       \<and> (\<forall>t. r = Some t \<longrightarrow> tr_signal_id t = sid \<and> tr_symbol t = symb)"
    if "i < length xs" for i
    using tr [OF that] by auto
  have b: "snd (run_evaluations s sid symb xs ! Suc i) = Inr None"
    if "Suc i < length xs" "met symb xs i" "met symb xs (Suc i)" for i
    using tr [OF that(1)] that(2,3) by auto
  have c: "\<exists>t. snd (run_evaluations s sid symb xs ! Suc i) = Inr (Some t)"
    if "Suc i < length xs" "\<not> met symb xs i" "met symb xs (Suc i)" for i
    using tr [OF that(1)] that(2,3) by auto
  show ?thesis using a b c by blast
qed

lemma scenario_outcomes:
  "map (outcome_of ''BTC'') scenario_evaluations
     = [Some False, Some True, Some True, Some False, Some True]"
  by (simp add: scenario_evaluations_def outcome_of_def condition_outcome_def well_formed_def
      cond_field_def resolved_value_def get_metric_value_def get_metric_value_try_def
      get_oi_def get_asset_field_def float_if_truthy_def scenario_env_def signal_S1_def def_of_row_def signal_row_S1_def
      update_oi_def evaluate_condition_def compare_with_def)


lemma scenario_length: "length scenario_evaluations = 5"
  by (simp add: scenario_evaluations_def)

lemma scenario_met:
  "\<not> met ''BTC'' scenario_evaluations 0" "met ''BTC'' scenario_evaluations 1"
  "met ''BTC'' scenario_evaluations 2" "\<not> met ''BTC'' scenario_evaluations 3"
  "met ''BTC'' scenario_evaluations 4"
  by (simp_all add: met_def scenario_evaluations_def outcome_of_def condition_outcome_def
      well_formed_def cond_field_def resolved_value_def get_metric_value_def
      get_metric_value_try_def get_oi_def get_asset_field_def float_if_truthy_def
      scenario_env_def signal_S1_def def_of_row_def signal_row_S1_def update_oi_def evaluate_condition_def compare_with_def)

text \<open>
  The law at the five evaluations of the scenario (open interest 900000, 1100000,
  1100000, 900000, 1200000): records at the second and at the fifth evaluation only.
\<close>

theorem edge_trigger_law_scenario:
  "map (outcome_of ''BTC'') scenario_evaluations
     = [Some False, Some True, Some True, Some False, Some True]
   \<and> snd (run_evaluations init_service 1 ''BTC'' scenario_evaluations ! 0) = Inr None
   \<and> (\<exists>t. snd (run_evaluations init_service 1 ''BTC'' scenario_evaluations ! 1) = Inr (Some t))
   \<and> snd (run_evaluations init_service 1 ''BTC'' scenario_evaluations ! 2) = Inr None
   \<and> snd (run_evaluations init_service 1 ''BTC'' scenario_evaluations ! 3) = Inr None
   \<and> (\<exists>t. snd (run_evaluations init_service 1 ''BTC'' scenario_evaluations ! 4) = Inr (Some t))"
proof -
  have h: "\<forall>x \<in> set scenario_evaluations. outcome_of ''BTC'' x \<noteq> None"
  proof
    fix x assume "x \<in> set scenario_evaluations"
    then have "outcome_of ''BTC'' x \<in> set (map (outcome_of ''BTC'') scenario_evaluations)"
      by simp
    then show "outcome_of ''BTC'' x \<noteq> None"
      unfolding scenario_outcomes by auto
  qed
  note law = edge_trigger_law [OF h, of init_service 1]
  have first: "\<exists>r.
       run_evaluations init_service 1 ''BTC'' scenario_evaluations ! i =
         (if i = 0 then stored_active init_service 1 ''BTC''
          else met ''BTC'' scenario_evaluations (i - 1), Inr r)
       \<and> ((r \<noteq> None) = (met ''BTC'' scenario_evaluations i
            \<and> \<not> fst (run_evaluations init_service 1 ''BTC'' scenario_evaluations ! i)))
       \<and> (\<forall>t. r = Some t \<longrightarrow> tr_signal_id t = 1 \<and> tr_symbol t = ''BTC'')"
    if "i < 5" for i
    using law [THEN conjunct1, rule_format, of i] that unfolding scenario_length by simp
  have stay: "snd (run_evaluations init_service 1 ''BTC'' scenario_evaluations ! Suc i) = Inr None"
    if "Suc i < 5" "met ''BTC'' scenario_evaluations i" "met ''BTC'' scenario_evaluations (Suc i)"
    for i
    using law [THEN conjunct2, THEN conjunct1, rule_format, of i] that
    unfolding scenario_length by simp
  have rise: "\<exists>t. snd (run_evaluations init_service 1 ''BTC'' scenario_evaluations ! Suc i)
                 = Inr (Some t)"
    if "Suc i < 5" "\<not> met ''BTC'' scenario_evaluations i" "met ''BTC'' scenario_evaluations (Suc i)"
    for i
    using law [THEN conjunct2, THEN conjunct2, rule_format, of i] that
    unfolding scenario_length by simp
  have e0: "snd (run_evaluations init_service 1 ''BTC'' scenario_evaluations ! 0) = Inr None"
    using first [of 0] scenario_met by auto
  have e1: "\<exists>t. snd (run_evaluations init_service 1 ''BTC'' scenario_evaluations ! 1) = Inr (Some t)"
    using rise [of 0] scenario_met by simp
  have e2: "snd (run_evaluations init_service 1 ''BTC'' scenario_evaluations ! 2) = Inr None"
    using stay [of 1] scenario_met unfolding Suc_1 by simp
  have e3: "snd (run_evaluations init_service 1 ''BTC'' scenario_evaluations ! 3) = Inr None"
    using first [of 3] scenario_met by auto
  have e4: "\<exists>t. snd (run_evaluations init_service 1 ''BTC'' scenario_evaluations ! 4) = Inr (Some t)"
    using rise [of 3] scenario_met by simp
  from scenario_outcomes e0 e1 e2 e3 e4 show ?thesis by blast
qed

subsection \<open>Evaluation of one signal\<close>

lemmas scenario_defs =
  scenario_env_def signal_S1_def def_of_row_def signal_row_S1_def update_oi_def signal_no_threshold_def signal_zero_def
  update_funding_def init_service_def

lemmas resolver_defs =
  condition_outcome_def well_formed_def cond_field_def resolved_value_def
  get_metric_value_def get_metric_value_try_def get_oi_def get_funding_rate_def
  get_asset_field_def float_if_truthy_def evaluate_condition_def compare_with_def



text \<open>
  C7. When the condition of a signal is a dict that lacks a required field (metric or
  operator absent or empty, threshold absent), or when its metric value resolves to
  absent, the evaluation returns no record and the service is left exactly as it was:
  no entry of the state store is created or changed.
\<close>

theorem skipped_signal_leaves_state:
  assumes "is_dict (trigger_condition sd)"
    and "\<not> truthy (cond_field sd ''metric'' PNone)
         \<or> \<not> truthy (cond_field sd ''operator'' PNone)
         \<or> cond_field sd ''threshold'' PNone = PNone
         \<or> resolved_value e sd symb md = None"
  shows "check_signal_trigger e s sid sd symb md = Inr (None, s)"
proof -
  from assms(1) obtain c where c: "trigger_condition sd = PDict c"
    by (cases "trigger_condition sd") simp_all
  show ?thesis
    using assms(2) c
    by (auto simp: check_signal_trigger_def cond_field_def resolved_value_def)
qed

text \<open>A definition without threshold, and S1 on an update without open interest.\<close>

theorem skipped_signal_leaves_state_scenario:
  "is_dict (trigger_condition signal_no_threshold)
   \<and> cond_field signal_no_threshold ''threshold'' PNone = PNone
   \<and> check_signal_trigger scenario_env init_service 2 signal_no_threshold ''BTC''
        (update_oi 1100000) = Inr (None, init_service)
   \<and> resolved_value scenario_env signal_S1 ''BTC'' [] = None
   \<and> check_signal_trigger scenario_env init_service 1 signal_S1 ''BTC'' []
        = Inr (None, init_service)"
proof -
  have d: "is_dict (trigger_condition signal_no_threshold)"
    "is_dict (trigger_condition signal_S1)"
    by (simp_all add: scenario_defs)
  have m: "cond_field signal_no_threshold ''threshold'' PNone = PNone"
    by (simp add: cond_field_def scenario_defs)
  have r: "resolved_value scenario_env signal_S1 ''BTC'' [] = None"
    by (simp add: resolver_defs scenario_defs)
  from skipped_signal_leaves_state [OF d(1), of _ _ _ init_service 2] m
  have a: "check_signal_trigger scenario_env init_service 2 signal_no_threshold ''BTC''
        (update_oi 1100000) = Inr (None, init_service)"
    by blast
  from skipped_signal_leaves_state [OF d(2), of scenario_env "''BTC''" "[]" init_service 1] r
  have b: "check_signal_trigger scenario_env init_service 1 signal_S1 ''BTC'' []
        = Inr (None, init_service)"
    by blast
  from d m r a b show ?thesis by blast
qed

text \<open>
  C10. A condition whose metric and operator are present and whose threshold is the
  number 0 passes the required-field test and is evaluated as any other: the metric is
  resolved, the operator is applied against 0, and the edge state is updated.
\<close>

theorem zero_threshold_is_evaluated:
  assumes "is_dict (trigger_condition sd)"
    and "truthy (cond_field sd ''metric'' PNone)"
    and "truthy (cond_field sd ''operator'' PNone)"
    and "num_of (cond_field sd ''threshold'' PNone) = Some 0"
  shows "well_formed sd
     \<and> (case resolved_value e sd symb md of
          None \<Rightarrow> check_signal_trigger e s sid sd symb md = Inr (None, s)
        | Some v \<Rightarrow>
            (\<exists>b. evaluate_condition v (cond_field sd ''operator'' PNone) (PFloat 0) = Inr b
               \<and> check_signal_trigger e s sid sd symb md =
                   Inr (edge_update e s sid sd symb (cond_field sd ''metric'' PNone)
                          (cond_field sd ''operator'' PNone)
                          (cond_field sd ''threshold'' PNone) v b)
               \<and> stored_active
                    (snd (edge_update e s sid sd symb (cond_field sd ''metric'' PNone)
                          (cond_field sd ''operator'' PNone)
                          (cond_field sd ''threshold'' PNone) v b)) sid symb = b))"
proof -
  from assms(4) have th: "cond_field sd ''threshold'' PNone \<noteq> PNone"
    by auto
  with assms have wf: "well_formed sd"
    by (simp add: well_formed_def)
  from assms(1) obtain c where c: "trigger_condition sd = PDict c"
    by (cases "trigger_condition sd") simp_all
  have ev: "evaluate_condition v oper (cond_field sd ''threshold'' PNone)
              = evaluate_condition v oper (PFloat 0)" for v oper
    using assms(4) by (simp add: evaluate_condition_def compare_with_def)
  have tot: "\<exists>b. evaluate_condition v oper (PFloat 0) = Inr b" for v oper
    by (auto simp: evaluate_condition_def compare_with_def)
  show ?thesis
  proof (cases "resolved_value e sd symb md")
    case None
    then show ?thesis
      using wf c
      by (simp add: check_signal_trigger_def well_formed_def cond_field_def resolved_value_def)
  next
    case (Some v)
    from tot [of v "cond_field sd ''operator'' PNone"] obtain b where
      b: "evaluate_condition v (cond_field sd ''operator'' PNone) (PFloat 0) = Inr b"
      by blast
    then have "condition_outcome e sd symb md = Some b"
      using wf Some ev by (simp add: condition_outcome_def)
    from check_defined [OF this, of s sid] Some
    have "check_signal_trigger e s sid sd symb md =
        Inr (edge_update e s sid sd symb (cond_field sd ''metric'' PNone)
               (cond_field sd ''operator'' PNone) (cond_field sd ''threshold'' PNone) v b)"
      by simp
    with b wf Some show ?thesis
      by (simp add: edge_update_active)
  qed
qed

text \<open>Funding rate above 0: the positive rate 0.0001 triggers.\<close>

theorem zero_threshold_is_evaluated_scenario:
  "num_of (cond_field signal_zero ''threshold'' PNone) = Some 0
   \<and> well_formed signal_zero
   \<and> (\<exists>t s'.
        check_signal_trigger scenario_env init_service 3 signal_zero ''BTC''
          (update_funding (1 / 10000)) = Inr (Some t, s')
        \<and> tr_threshold t = PInt 0 \<and> tr_trigger_value t = 1 / 10000
        \<and> stored_active s' 3 ''BTC'')"
proof -
  have h: "is_dict (trigger_condition signal_zero)"
    "truthy (cond_field signal_zero ''metric'' PNone)"
    "truthy (cond_field signal_zero ''operator'' PNone)"
    "num_of (cond_field signal_zero ''threshold'' PNone) = Some 0"
    by (simp_all add: cond_field_def scenario_defs)
  have v: "resolved_value scenario_env signal_zero ''BTC'' (update_funding (1 / 10000))
             = Some (1 / 10000)"
    by (simp add: resolver_defs scenario_defs)
  have op: "cond_field signal_zero ''operator'' PNone = PStr ''>''"
    "cond_field signal_zero ''threshold'' PNone = PInt 0"
    by (simp_all add: cond_field_def scenario_defs)
  have ev: "evaluate_condition (1 / 10000) (PStr ''>'') (PFloat 0) = Inr b \<longleftrightarrow> b" for b
    by (simp add: evaluate_condition_def compare_with_def)
  have na: "\<not> stored_active init_service 3 ''BTC''"
    by (simp add: stored_active_def init_service_def)
  note z = zero_threshold_is_evaluated [OF h, where e = scenario_env and symb = "''BTC''"
      and md = "update_funding (1 / 10000)" and s = init_service and sid = 3]
  from z have wf: "well_formed signal_zero" by blast
  let ?u = "edge_update scenario_env init_service 3 signal_zero ''BTC''
          (cond_field signal_zero ''metric'' PNone) (PStr ''>'') (PInt 0) (1 / 10000) True"
  from z v have "\<exists>b. evaluate_condition (1 / 10000)
            (cond_field signal_zero ''operator'' PNone) (PFloat 0) = Inr b
       \<and> check_signal_trigger scenario_env init_service 3 signal_zero ''BTC''
            (update_funding (1 / 10000)) =
           Inr (edge_update scenario_env init_service 3 signal_zero ''BTC''
                  (cond_field signal_zero ''metric'' PNone)
                  (cond_field signal_zero ''operator'' PNone)
                  (cond_field signal_zero ''threshold'' PNone) (1 / 10000) b)"
    by (simp only: option.case) blast
  then obtain b where
    b: "evaluate_condition (1 / 10000) (PStr ''>'') (PFloat 0) = Inr b"
    and cb: "check_signal_trigger scenario_env init_service 3 signal_zero ''BTC''
            (update_funding (1 / 10000)) =
           Inr (edge_update scenario_env init_service 3 signal_zero ''BTC''
                  (cond_field signal_zero ''metric'' PNone) (PStr ''>'') (PInt 0)
                  (1 / 10000) b)"
    unfolding op by blast
  from b have "b" by (simp only: ev)
  with cb have
    c: "check_signal_trigger scenario_env init_service 3 signal_zero ''BTC''
          (update_funding (1 / 10000)) = Inr ?u"
    by simp
  have a: "stored_active (snd ?u) 3 ''BTC''"
    by (simp only: edge_update_active)
  from edge_update_record [of scenario_env init_service 3 signal_zero "''BTC''"
      "cond_field signal_zero ''metric'' PNone" "PStr ''>''" "PInt 0" "1 / 10000" True] na
  obtain t where t: "fst ?u = Some t" by auto
  have "tr_threshold t = PInt 0 \<and> tr_trigger_value t = 1 / 10000"
    using t by (auto simp: edge_update_def Let_def split: if_splits)
  moreover have "check_signal_trigger scenario_env init_service 3 signal_zero ''BTC''
          (update_funding (1 / 10000)) = Inr (Some t, snd ?u)"
    using c t by (simp add: prod_eq_iff)
  ultimately show ?thesis using h(4) wf a by blast
qed

subsection \<open>Configuration cache\<close>

text \<open>
  C9 (amended). On every access a refresh is attempted if and only if
  \<open>now - lastRefresh \<ge> ttl\<close>; when none is attempted nothing but the clock reading
  changes. A refresh whose two queries succeed replaces pools and signal definitions by
  what was fetched (also when that is empty) and advances the timestamp to \<open>now\<close>. A
  refresh that fails keeps the stale signal definitions and does not advance the
  timestamp, so that the next access retries; it keeps the stale pools when it fails
  before the pools have been fetched. The refresh never touches the edge-trigger
  states, and it returns in every case: each failure of the database is an outcome of
  the function, not an exception.
\<close>

theorem cache_refresh:
  "refresh_attempts (refresh_cache_if_needed e s) =
     refresh_attempts s
       + (if cache_ttl s \<le> clock e (ticks s) - cache_time s then 1 else 0)
   \<and> (clock e (ticks s) - cache_time s < cache_ttl s \<longrightarrow>
        refresh_cache_if_needed e s = s\<lparr>ticks := Suc (ticks s)\<rparr>)
   \<and> (cache_ttl s \<le> clock e (ticks s) - cache_time s \<and> session_local e = None
        \<and> query_pools e = Inr prows \<and> query_signals e = Inr srows \<longrightarrow>
        signal_pools_cache (refresh_cache_if_needed e s) = map pool_of_row prows
        \<and> signals_cache (refresh_cache_if_needed e s) = signals_of_rows srows
        \<and> cache_time (refresh_cache_if_needed e s) = clock e (ticks s))
   \<and> (cache_ttl s \<le> clock e (ticks s) - cache_time s
        \<and> (session_local e \<noteq> None \<or> isl (query_pools e) \<or> isl (query_signals e)) \<longrightarrow>
        signals_cache (refresh_cache_if_needed e s) = signals_cache s
        \<and> cache_time (refresh_cache_if_needed e s) = cache_time s)
   \<and> (cache_ttl s \<le> clock e (ticks s) - cache_time s
        \<and> (session_local e \<noteq> None \<or> isl (query_pools e)) \<longrightarrow>
        signal_pools_cache (refresh_cache_if_needed e s) = signal_pools_cache s)
   \<and> signal_states (refresh_cache_if_needed e s) = signal_states s
   \<and> cache_ttl (refresh_cache_if_needed e s) = cache_ttl s"
proof -
  have 1: "refresh_attempts (refresh_cache_if_needed e s) =
     refresh_attempts s
       + (if cache_ttl s \<le> clock e (ticks s) - cache_time s then 1 else 0)"
    by (simp add: refresh_cache_if_needed_def Let_def split: option.splits sum.splits)
  have 2: "clock e (ticks s) - cache_time s < cache_ttl s \<longrightarrow>
        refresh_cache_if_needed e s = s\<lparr>ticks := Suc (ticks s)\<rparr>"
    by (simp add: refresh_cache_if_needed_def Let_def)
  have 3: "cache_ttl s \<le> clock e (ticks s) - cache_time s \<and> session_local e = None
        \<and> query_pools e = Inr prows \<and> query_signals e = Inr srows \<longrightarrow>
        signal_pools_cache (refresh_cache_if_needed e s) = map pool_of_row prows
        \<and> signals_cache (refresh_cache_if_needed e s) = signals_of_rows srows
        \<and> cache_time (refresh_cache_if_needed e s) = clock e (ticks s)"
    by (simp add: refresh_cache_if_needed_def Let_def)
  have 4: "cache_ttl s \<le> clock e (ticks s) - cache_time s
        \<and> (session_local e \<noteq> None \<or> isl (query_pools e) \<or> isl (query_signals e)) \<longrightarrow>
        signals_cache (refresh_cache_if_needed e s) = signals_cache s
        \<and> cache_time (refresh_cache_if_needed e s) = cache_time s"
    by (auto simp: refresh_cache_if_needed_def Let_def split: option.splits sum.splits)
  have 5: "cache_ttl s \<le> clock e (ticks s) - cache_time s
        \<and> (session_local e \<noteq> None \<or> isl (query_pools e)) \<longrightarrow>
        signal_pools_cache (refresh_cache_if_needed e s) = signal_pools_cache s"
    by (auto simp: refresh_cache_if_needed_def Let_def split: option.splits sum.splits)
  have 6: "signal_states (refresh_cache_if_needed e s) = signal_states s"
    "cache_ttl (refresh_cache_if_needed e s) = cache_ttl s"
    by (simp_all add: refresh_cache_if_needed_def Let_def split: option.splits sum.splits)
  from 1 2 3 4 5 6 show ?thesis by blast
qed

text \<open>
  The sentence of the specification fails as stated: when the pools query succeeds and the definitions query
  fails, the refresh has failed (the timestamp is not advanced) and yet the pools of
  the snapshot have been replaced.
\<close>

theorem cache_refresh_partial_failure:
  "query_signals env_signals_query_fails = Inl DatabaseError
   \<and> cache_ttl init_service
        \<le> clock env_signals_query_fails (ticks init_service) - cache_time init_service
   \<and> signal_pools_cache (refresh_cache_if_needed env_signals_query_fails init_service)
        \<noteq> signal_pools_cache init_service
   \<and> cache_time (refresh_cache_if_needed env_signals_query_fails init_service)
        = cache_time init_service"
  by (simp add: env_signals_query_fails_def scenario_env_def init_service_def
      refresh_cache_if_needed_def Let_def)

text \<open>
  The first access of the scenario refreshes, a second access one clock reading later
  does not, and a failing definitions query leaves the definitions as they were.
\<close>

theorem cache_refresh_scenario:
  "refresh_attempts (refresh_cache_if_needed scenario_env init_service) = 1
   \<and> cache_time (refresh_cache_if_needed scenario_env init_service) = 1700000000
   \<and> map pool_id (signal_pools_cache (refresh_cache_if_needed scenario_env init_service)) = [1]
   \<and> refresh_cache_if_needed scenario_env (refresh_cache_if_needed scenario_env init_service)
        = (refresh_cache_if_needed scenario_env init_service)\<lparr>ticks := 2\<rparr>
   \<and> signals_cache (refresh_cache_if_needed env_signals_query_fails init_service)
        = signals_cache init_service
   \<and> refresh_attempts (refresh_cache_if_needed env_signals_query_fails init_service) = 1"
proof -
  let ?s1 = "refresh_cache_if_needed scenario_env init_service"
  have due: "cache_ttl init_service \<le> clock scenario_env (ticks init_service) - cache_time init_service"
    "cache_ttl init_service
        \<le> clock env_signals_query_fails (ticks init_service) - cache_time init_service"
    by (simp_all add: env_signals_query_fails_def scenario_env_def init_service_def)
  have ok: "session_local scenario_env = None"
    "query_pools scenario_env = Inr [pool_row_P]"
    "\<exists>srows. query_signals scenario_env = Inr srows"
    by (simp_all add: scenario_env_def)
  then obtain srows where srows: "query_signals scenario_env = Inr srows" by blast
  note a = cache_refresh [of scenario_env init_service _ srows]
  from a due(1) have att: "refresh_attempts ?s1 = 1"
    by (simp add: init_service_def)
  from a due(1) ok(1,2) srows have ld: "cache_time ?s1 = 1700000000"
    "map pool_id (signal_pools_cache ?s1) = [1]"
    by (simp_all add: scenario_env_def init_service_def pool_of_row_def pool_row_P_def)
  have t1: "ticks ?s1 = 1" "cache_ttl ?s1 = 60"
    by (simp_all add: refresh_cache_if_needed_def Let_def scenario_env_def init_service_def)
  have fresh: "clock scenario_env (ticks ?s1) - cache_time ?s1 < cache_ttl ?s1"
    using ld(1) t1 by (simp add: scenario_env_def)
  from cache_refresh [of scenario_env ?s1] fresh t1
  have again: "refresh_cache_if_needed scenario_env ?s1 = ?s1\<lparr>ticks := 2\<rparr>"
    by simp
  have f: "isl (query_signals env_signals_query_fails)"
    by (simp add: env_signals_query_fails_def)
  from cache_refresh [of env_signals_query_fails init_service] due(2) f
  have stale: "signals_cache (refresh_cache_if_needed env_signals_query_fails init_service)
        = signals_cache init_service"
    "refresh_attempts (refresh_cache_if_needed env_signals_query_fails init_service) = 1"
    by (simp_all add: init_service_def)
  from att ld again stale show ?thesis by blast
qed

subsection \<open>Metric resolver\<close>

text \<open>What the resolver returns for the two metrics read from the update itself.\<close>

lemma direct_metric_resolution:
  assumes "map_of md ''asset_ctx'' = Some (PDict ctx)"
  shows "get_metric_value e (PStr ''oi'') symb md tw =
           (case map_of ctx ''openInterest'' of
              None \<Rightarrow> None
            | Some x \<Rightarrow>
                if truthy x
                then (case py_float (float_of_str e) x of Inl err \<Rightarrow> None | Inr r \<Rightarrow> Some r)
                else None)"
    and "get_metric_value e (PStr ''funding_rate'') symb md tw =
           (case map_of ctx ''funding'' of
              None \<Rightarrow> None
            | Some x \<Rightarrow>
                if truthy x
                then (case py_float (float_of_str e) x of Inl err \<Rightarrow> None | Inr r \<Rightarrow> Some r)
                else None)"
  using assms
  by (simp_all add: get_metric_value_def get_metric_value_try_def get_oi_def
      get_funding_rate_def get_asset_field_def float_if_truthy_def
      split: option.splits sum.splits)

text \<open>
  C5. The resolver of "oi" and "funding_rate" returns the number in the update when
  there is one. The code tests the field with \<^verbatim>\<open>if oi\<close> and \<^verbatim>\<open>if funding\<close>: a field
  that holds the number zero is a parseable numeric value (\<open>float\<close> gives 0), and the
  resolver returns absent for it.
\<close>

theorem zero_metric_resolves_to_absent:
  "py_float (float_of_str e) (PFloat 0) = Inr 0
   \<and> get_metric_value e (PStr ''funding_rate'') symb
        [(''asset_ctx'', PDict [(''funding'', PFloat 0)])] tw = None
   \<and> py_float (float_of_str e) (PInt 0) = Inr 0
   \<and> get_metric_value e (PStr ''oi'') symb
        [(''asset_ctx'', PDict [(''openInterest'', PInt 0)])] tw = None"
  by (simp add: get_metric_value_def get_metric_value_try_def get_oi_def
      get_funding_rate_def get_asset_field_def float_if_truthy_def)

subsection \<open>Isolation of failures in one call\<close>

lemmas isolation_defs =
  env_string_threshold_def env_no_threshold_def pool_row_AB_def pool_row_P_def
  signal_row_string_threshold_def signal_row_no_threshold_def signal_row_B_def
  signal_row_S1_def scenario_env_def init_service_def update_oi_def

lemmas service_defs =
  detect_signals_def refresh_cache_if_needed_def pool_of_row_def def_of_row_def
  signals_of_rows_def check_signal_trigger_def edge_update_def fresh_state_def
  get_metric_value_def get_metric_value_try_def get_oi_def get_funding_rate_def
  get_asset_field_def float_if_truthy_def evaluate_condition_def compare_with_def

lemma check_signals_skip:
  assumes "skipped e s symb md sid"
  shows "check_signals e s symb md (sid # rest) acc = check_signals e s symb md rest acc"
proof (cases "signals_cache s sid")
  case None
  then show ?thesis by simp
next
  case (Some sd)
  show ?thesis
  proof (cases "def_enabled sd")
    case False
    with Some show ?thesis by simp
  next
    case True
    with assms Some have d: "is_dict (trigger_condition sd)"
      and m: "\<not> well_formed sd \<or> resolved_value e sd symb md = None"
      by (simp_all add: skipped_def)
    from d obtain c where c: "trigger_condition sd = PDict c"
      by (cases "trigger_condition sd") simp_all
    from m c have "check_signal_trigger e s sid sd symb md = Inr (None, s)"
      by (auto simp: check_signal_trigger_def well_formed_def cond_field_def resolved_value_def)
    with Some True show ?thesis by simp
  qed
qed

lemma check_signals_skip_all:
  "\<forall>sid \<in> set pre. skipped e s symb md sid \<Longrightarrow>
     check_signals e s symb md (pre @ rest) acc = check_signals e s symb md rest acc"
  by (induction pre) (simp_all add: check_signals_skip del: check_signals.simps)

lemma check_signals_keeps:
  "\<exists>new. fst (check_signals e s symb md sids acc) = acc @ new"
proof (induction sids arbitrary: s acc)
  case Nil
  then show ?case by simp
next
  case (Cons sid sids)
  show ?case
  proof (cases "signals_cache s sid")
    case None
    with Cons.IH [of s acc] show ?thesis by simp
  next
    case (Some sd)
    show ?thesis
    proof (cases "def_enabled sd")
      case False
      with Some Cons.IH [of s acc] show ?thesis by simp
    next
      case True
      show ?thesis
      proof (cases "check_signal_trigger e s sid sd symb md")
        case (Inl err)
        with Some True show ?thesis by simp
      next
        case (Inr p)
        obtain r s' where p: "p = (r, s')" by (cases p)
        show ?thesis
        proof (cases r)
          case None
          with Some True Inr p Cons.IH [of s' acc] show ?thesis by simp
        next
          case (Some t)
          from Cons.IH [of s' "acc @ [t]"] obtain new where
            "fst (check_signals e s' symb md sids (acc @ [t])) = acc @ [t] @ new"
            by auto
          with \<open>signals_cache s sid = Some sd\<close> True Inr p Some show ?thesis by simp
        qed
      qed
    qed
  qed
qed

text \<open>
  C8 (amended). In every call of \<^verbatim>\<open>detect_signals\<close>, candidates that are absent from
  the cache, disabled, lacking a required field, or whose metric does not resolve are
  passed over without any effect on the candidates after them; in particular a missing
  threshold of signal A does not prevent a well-formed signal B on the same symbol from
  triggering. When the evaluation of a signal raises, the loop ends there and the call
  returns the records collected before it; records once collected are always part of
  what the call returns.
\<close>

theorem isolation_of_skipped_signals:
  "((\<forall>sid \<in> set pre. skipped e s symb md sid) \<longrightarrow>
      check_signals e s symb md (pre @ rest) acc = check_signals e s symb md rest acc)
   \<and> (signals_cache s sid = Some sd \<and> def_enabled sd
       \<and> check_signal_trigger e s sid sd symb md = Inl err \<longrightarrow>
      check_signals e s symb md (sid # rest) acc = (acc, s))
   \<and> (\<exists>new. fst (check_signals e s symb md sids acc) = acc @ new)"
  using check_signals_skip_all [of pre e s symb md rest acc]
    check_signals_keeps [of e s symb md sids acc]
  by simp

text \<open>
  The sentence of the specification fails for a failure that raises in the evaluation: the
  threshold of A is the string "1000000", the comparison raises TypeError, and B, whose
  condition is met and which is not active, is never evaluated.
\<close>

theorem string_threshold_aborts_batch:
  "fst (detect_signals env_string_threshold init_service ''BTC'' (update_oi 1100000)) = []
   \<and> signals_cache (refresh_cache_if_needed env_string_threshold init_service) 2
        = Some (def_of_row signal_row_B)
   \<and> condition_outcome env_string_threshold (def_of_row signal_row_B) ''BTC''
        (update_oi 1100000) = Some True
   \<and> \<not> stored_active init_service 2 ''BTC''
   \<and> set_iteration env_string_threshold [1, 2] = [1, 2]"
  by (simp add: isolation_defs service_defs Let_def stored_active_def condition_outcome_def
      well_formed_def cond_field_def resolved_value_def)

text \<open>A without threshold is passed over, and B triggers in the same call.\<close>

theorem isolation_of_missing_threshold:
  "skipped env_no_threshold (refresh_cache_if_needed env_no_threshold init_service) ''BTC''
     (update_oi 1100000) 1
   \<and> check_signals env_no_threshold (refresh_cache_if_needed env_no_threshold init_service)
        ''BTC'' (update_oi 1100000) ([1] @ [2]) []
      = check_signals env_no_threshold (refresh_cache_if_needed env_no_threshold init_service)
        ''BTC'' (update_oi 1100000) [2] []
   \<and> map tr_signal_id
        (fst (detect_signals env_no_threshold init_service ''BTC'' (update_oi 1100000))) = [2]
   \<and> map tr_trigger_value
        (fst (detect_signals env_no_threshold init_service ''BTC'' (update_oi 1100000)))
      = [1100000]"
proof -
  let ?s1 = "refresh_cache_if_needed env_no_threshold init_service"
  have sk: "skipped env_no_threshold ?s1 ''BTC'' (update_oi 1100000) 1"
    by (simp add: skipped_def isolation_defs service_defs Let_def well_formed_def
        cond_field_def)
  then have all: "\<forall>sid \<in> set [1]. skipped env_no_threshold ?s1 ''BTC'' (update_oi 1100000) sid"
    by simp
  from isolation_of_skipped_signals [where pre = "[1]" and rest = "[2]" and acc = "[]"
      and e = env_no_threshold and s = ?s1 and symb = "''BTC''"
      and md = "update_oi 1100000", THEN conjunct1] all
  have eq: "check_signals env_no_threshold ?s1 ''BTC'' (update_oi 1100000) ([1] @ [2]) []
      = check_signals env_no_threshold ?s1 ''BTC'' (update_oi 1100000) [2] []"
    by blast
  have d: "map tr_signal_id
        (fst (detect_signals env_no_threshold init_service ''BTC'' (update_oi 1100000))) = [2]"
    "map tr_trigger_value
        (fst (detect_signals env_no_threshold init_service ''BTC'' (update_oi 1100000)))
      = [1100000]"
    by (simp_all add: isolation_defs service_defs Let_def)
  from sk eq d show ?thesis by blast
qed

subsection \<open>End-to-end scenario\<close>

lemma S1_outcome:
  "v \<noteq> 0 \<Longrightarrow>
     condition_outcome e signal_S1 ''BTC'' (update_oi v) = Some (1000000 < v)"
  by (simp add: condition_outcome_def well_formed_def cond_field_def resolved_value_def
      get_metric_value_def get_metric_value_try_def get_oi_def get_asset_field_def
      float_if_truthy_def signal_S1_def def_of_row_def signal_row_S1_def update_oi_def
      evaluate_condition_def compare_with_def)

lemma S1_value:
  "v \<noteq> 0 \<Longrightarrow> resolved_value e signal_S1 ''BTC'' (update_oi v) = Some (real_of_int v)"
  by (simp add: cond_field_def resolved_value_def
      get_metric_value_def get_metric_value_try_def get_oi_def get_asset_field_def
      float_if_truthy_def signal_S1_def def_of_row_def signal_row_S1_def update_oi_def)

lemma refresh_loaded:
  assumes "session_local e = None" "query_pools e = Inr [pool_row_P]"
    "query_signals e = Inr [signal_row_S1]"
    and "loaded s \<or> cache_ttl s \<le> clock e (ticks s) - cache_time s"
  shows "loaded (refresh_cache_if_needed e s)
     \<and> signal_states (refresh_cache_if_needed e s) = signal_states s"
  using assms by (auto simp: refresh_cache_if_needed_def Let_def loaded_def)

lemma loaded_check:
  assumes "loaded s" "set_iteration e [1] = [1]" "v \<noteq> 0"
  shows "\<exists>r s'. check_signals e s ''BTC'' (update_oi v)
            (set_iteration e (concat (map signal_ids
               (filter (\<lambda>p. pool_enabled p \<and> ''BTC'' \<in> set (symbols p))
                  (signal_pools_cache s))))) [] = (r, s')
     \<and> loaded s'
     \<and> stored_active s' 1 ''BTC'' = (1000000 < v)
     \<and> (if 1000000 < v \<and> \<not> stored_active s 1 ''BTC''
         then \<exists>t. r = [t] \<and> tr_signal_id t = 1 \<and> tr_symbol t = ''BTC''
                \<and> tr_trigger_value t = real_of_int v
         else r = [])"
proof -
  from assms(1) have ids: "set_iteration e (concat (map signal_ids
               (filter (\<lambda>p. pool_enabled p \<and> ''BTC'' \<in> set (symbols p))
                  (signal_pools_cache s)))) = [1]"
    using assms(2) by (simp add: loaded_def pool_of_row_def pool_row_P_def)
  from assms(1) have sc: "signals_cache s 1 = Some signal_S1"
    by (simp add: loaded_def signals_of_rows_def signal_S1_def signal_row_S1_def)
  have en: "def_enabled signal_S1"
    by (simp add: signal_S1_def def_of_row_def signal_row_S1_def)
  from check_defined [OF S1_outcome [OF assms(3)], of e s 1] S1_value [OF assms(3), of e]
  have c: "check_signal_trigger e s 1 signal_S1 ''BTC'' (update_oi v) =
       Inr (edge_update e s 1 signal_S1 ''BTC'' (cond_field signal_S1 ''metric'' PNone)
              (cond_field signal_S1 ''operator'' PNone)
              (cond_field signal_S1 ''threshold'' PNone) (real_of_int v) (1000000 < v))"
    by simp
  let ?u = "edge_update e s 1 signal_S1 ''BTC'' (cond_field signal_S1 ''metric'' PNone)
              (cond_field signal_S1 ''operator'' PNone)
              (cond_field signal_S1 ''threshold'' PNone) (real_of_int v) (1000000 < v)"
  have run: "check_signals e s ''BTC'' (update_oi v) [1] [] =
       (case fst ?u of None \<Rightarrow> [] | Some t \<Rightarrow> [t], snd ?u)"
    using sc en c by (simp add: case_prod_unfold split: option.splits)
  have l: "loaded (snd ?u)"
    using assms(1) by (simp add: loaded_def edge_update_def Let_def)
  have a: "stored_active (snd ?u) 1 ''BTC'' = (1000000 < v)"
    by (rule edge_update_active)
  have r: "(fst ?u \<noteq> None) = (1000000 < v \<and> \<not> stored_active s 1 ''BTC'')"
    by (rule edge_update_record)
  have p: "\<forall>t. fst ?u = Some t \<longrightarrow>
        tr_signal_id t = 1 \<and> tr_symbol t = ''BTC'' \<and> tr_trigger_value t = real_of_int v"
    using edge_update_for_pair by blast
  show ?thesis
    unfolding ids run using l a r p by (cases "fst ?u") auto
qed

lemma detect_loaded:
  assumes "session_local e = None" "query_pools e = Inr [pool_row_P]"
    "query_signals e = Inr [signal_row_S1]" "set_iteration e [1] = [1]"
    and "loaded s \<or> cache_ttl s \<le> clock e (ticks s) - cache_time s"
    and "v \<noteq> 0"
  shows "\<exists>r s'. detect_signals e s ''BTC'' (update_oi v) = (r, s')
     \<and> loaded s'
     \<and> stored_active s' 1 ''BTC'' = (1000000 < v)
     \<and> (if 1000000 < v \<and> \<not> stored_active s 1 ''BTC''
         then \<exists>t. r = [t] \<and> tr_signal_id t = 1 \<and> tr_symbol t = ''BTC''
                \<and> tr_trigger_value t = real_of_int v
         else r = [])"
proof -
  let ?s1 = "refresh_cache_if_needed e s"
  from refresh_loaded [OF assms(1,2,3,5)] have l: "loaded ?s1"
    and st: "signal_states ?s1 = signal_states s"
    by simp_all
  have act: "stored_active ?s1 1 ''BTC'' = stored_active s 1 ''BTC''"
    by (simp add: stored_active_def st)
  have ne: "filter (\<lambda>p. pool_enabled p \<and> ''BTC'' \<in> set (symbols p)) (signal_pools_cache ?s1) \<noteq> []"
    using l by (simp add: loaded_def pool_of_row_def pool_row_P_def)
  have d: "detect_signals e s ''BTC'' (update_oi v) =
      check_signals e ?s1 ''BTC'' (update_oi v)
        (set_iteration e (concat (map signal_ids
           (filter (\<lambda>p. pool_enabled p \<and> ''BTC'' \<in> set (symbols p))
              (signal_pools_cache ?s1))))) []"
    using ne by (simp add: detect_signals_def Let_def)
  from loaded_check [OF l assms(4,6)] show ?thesis
    unfolding d act .
qed

text \<open>
  C2. With one enabled pool with symbols {"BTC"} and signals {S1}, and S1 enabled with
  metric "oi", operator ">" and threshold 1000000, the calls of \<^verbatim>\<open>detect_signals\<close> for
  "BTC" on updates with open interest 900000, 1100000, 1100000, 900000, 1200000 return
  in this order: no record; one record for S1 with trigger value 1100000; no record; no
  record, the pair being inactive afterwards; one new record for S1. This holds for
  every clock whose first reading is an epoch time (at least 60), whenever the cache
  happens to be refreshed in between.
\<close>

theorem end_to_end_scenario:
  assumes "session_local e = None" "query_pools e = Inr [pool_row_P]"
    "query_signals e = Inr [signal_row_S1]" "set_iteration e [1] = [1]"
    and "60 \<le> clock e 0"
  shows "\<exists>t2 t5 s1 s2 s3 s4 s5.
     detect_sequence e init_service ''BTC''
       (map update_oi [900000, 1100000, 1100000, 900000, 1200000])
       = [([], s1), ([t2], s2), ([], s3), ([], s4), ([t5], s5)]
     \<and> tr_signal_id t2 = 1 \<and> tr_symbol t2 = ''BTC'' \<and> tr_trigger_value t2 = 1100000
     \<and> stored_active s3 1 ''BTC''
     \<and> \<not> stored_active s4 1 ''BTC''
     \<and> tr_signal_id t5 = 1 \<and> tr_symbol t5 = ''BTC'' \<and> tr_trigger_value t5 = 1200000"
proof -
  note d = detect_loaded [OF assms(1,2,3,4)]
  have due: "loaded init_service
      \<or> cache_ttl init_service \<le> clock e (ticks init_service) - cache_time init_service"
    using assms(5) by (simp add: init_service_def)
  have a0: "\<not> stored_active init_service 1 ''BTC''"
    by (simp add: stored_active_def init_service_def)
  from d [OF due, of 900000] a0 obtain s1 where
    1: "detect_signals e init_service ''BTC'' (update_oi 900000) = ([], s1)"
    and l1: "loaded s1" and a1: "\<not> stored_active s1 1 ''BTC''"
    by auto
  from d [of s1 1100000] l1 a1 obtain t2 s2 where
    2: "detect_signals e s1 ''BTC'' (update_oi 1100000) = ([t2], s2)"
    and l2: "loaded s2" and a2: "stored_active s2 1 ''BTC''"
    and r2: "tr_signal_id t2 = 1" "tr_symbol t2 = ''BTC''" "tr_trigger_value t2 = 1100000"
    by auto
  from d [of s2 1100000] l2 a2 obtain s3 where
    3: "detect_signals e s2 ''BTC'' (update_oi 1100000) = ([], s3)"
    and l3: "loaded s3" and a3: "stored_active s3 1 ''BTC''"
    by auto
  from d [of s3 900000] l3 a3 obtain s4 where
    4: "detect_signals e s3 ''BTC'' (update_oi 900000) = ([], s4)"
    and l4: "loaded s4" and a4: "\<not> stored_active s4 1 ''BTC''"
    by auto
  from d [of s4 1200000] l4 a4 obtain t5 s5 where
    5: "detect_signals e s4 ''BTC'' (update_oi 1200000) = ([t5], s5)"
    and r5: "tr_signal_id t5 = 1" "tr_symbol t5 = ''BTC''" "tr_trigger_value t5 = 1200000"
    by auto
  have "detect_sequence e init_service ''BTC''
       (map update_oi [900000, 1100000, 1100000, 900000, 1200000])
       = [([], s1), ([t2], s2), ([], s3), ([], s4), ([t5], s5)]"
    by (simp add: 1 2 3 4 5)
  with r2 a3 a4 r5 show ?thesis by blast
qed

text \<open>The five calls on the world of the scenario.\<close>

theorem end_to_end_scenario_run:
  "session_local scenario_env = None
   \<and> query_pools scenario_env = Inr [pool_row_P]
   \<and> query_signals scenario_env = Inr [signal_row_S1]
   \<and> set_iteration scenario_env [1] = [1]
   \<and> 60 \<le> clock scenario_env 0
   \<and> map (map tr_trigger_value \<circ> fst)
        (detect_sequence scenario_env init_service ''BTC''
           (map update_oi [900000, 1100000, 1100000, 900000, 1200000]))
      = [[], [1100000], [], [], [1200000]]"
proof -
  have h: "session_local scenario_env = None" "query_pools scenario_env = Inr [pool_row_P]"
    "query_signals scenario_env = Inr [signal_row_S1]" "set_iteration scenario_env [1] = [1]"
    "60 \<le> clock scenario_env 0"
    by (simp_all add: scenario_env_def)
  from end_to_end_scenario [OF h] obtain t2 t5 s1 s2 s3 s4 s5 where
    "detect_sequence scenario_env init_service ''BTC''
       (map update_oi [900000, 1100000, 1100000, 900000, 1200000])
       = [([], s1), ([t2], s2), ([], s3), ([], s4), ([t5], s5)]"
    "tr_trigger_value t2 = 1100000" "tr_trigger_value t5 = 1200000"
    by blast
  then have "map (map tr_trigger_value \<circ> fst)
        (detect_sequence scenario_env init_service ''BTC''
           (map update_oi [900000, 1100000, 1100000, 900000, 1200000]))
      = [[], [1100000], [], [], [1200000]]"
    by simp
  with h show ?thesis by blast
qed

end
